theory Spec2Isabelle
  imports Complex_Main "HOL-Library.AList"
begin

section \<open>Python values, classes and exceptions\<close>

text \<open>
  The repository is Python 2. The model keeps only what the three source files look at:
  a class is known by its name and the names of the classes it inherits from (its method
  resolution order without itself), an object of the module namespace is a class, a
  dictionary, a function, a module or some other instance, and a dictionary is an
  association list with string keys.
\<close>

type_synonym classname = string

datatype pyclass = PyClass (cname: classname) (ancestors: "classname list")

datatype pyval =
    NoneVal
  | IntVal int
  | StrVal string
  | ListVal "pyval list"
  | DictVal "(string \<times> pyval) list"
  | ClassObj pyclass
  | FunctionObj string
  | ModuleObj string
  | Instance classname

text \<open>
  The messages of the two \<open>ValueError\<close>s of \<open>run.py\<close> and of the one of
  \<open>models/base.py\<close> are kept structured: the format string is the constructor, its
  arguments are the fields.
\<close>

datatype message =
    NotAStruct pyclass
  | InvalidArgument string
  | IsNotA string classname

datatype error =
    ValueError message
  | TypeError
  | RuntimeError
  | AttributeError
  | NotImplementedError
  | StructError

text \<open>
  The builtin \<open>issubclass\<close> on two classes: a class is a subclass of itself and of every
  class it inherits from.
\<close>

definition issubclass :: "pyclass \<Rightarrow> classname \<Rightarrow> bool" where
  "issubclass c S = (S = cname c \<or> S \<in> set (ancestors c))"

text \<open>
  The builtin \<open>issubclass\<close> as \<open>run.py\<close> calls it, on whatever object the namespace
  holds: its first argument must be a class, anything else is a \<open>TypeError\<close>
  (\<open>issubclass() arg 1 must be a class\<close>). This is the check against a plain type
  such as \<open>dict\<close>. Against a class whose metaclass is \<open>ABCMeta\<close>, as
  \<open>AbstractController\<close> is, Python consults the hook of the metaclass, which agrees
  with this check on classes nothing has been registered with; what the hook does with
  an object that is not a class is not modelled, and no property below depends on it.
\<close>

fun issubclass_obj :: "pyval \<Rightarrow> classname \<Rightarrow> error + bool" where
  "issubclass_obj (ClassObj c) S = Inr (issubclass c S)"
| "issubclass_obj obj S = Inl TypeError"

text \<open>Sequencing of two steps that may raise: the first exception ends the computation.\<close>

definition and_then :: "error + 'a \<Rightarrow> ('a \<Rightarrow> error + 'b) \<Rightarrow> error + 'b" where
  "and_then r f = (case r of Inl e \<Rightarrow> Inl e | Inr x \<Rightarrow> f x)"

section \<open>The command line: \<open>run.py\<close>\<close>

text \<open>
  \<open>globals()\<close> is the module namespace of \<open>run.py\<close>: everything the three star imports
  bring in, the module's own functions, and the imported modules.
\<close>

type_synonym namespace = "string \<rightharpoonup> pyval"

text \<open>
  \<open>get_object_from_arg(arg, superclass, default=None)\<close>. The argument is the string
  argparse produced (\<open>type=str\<close>) or \<open>None\<close>.
\<close>

fun get_object_from_arg :: "namespace \<Rightarrow> string option \<Rightarrow> classname \<Rightarrow> pyval \<Rightarrow> error + pyval" where
  "get_object_from_arg globals None superclass default_obj = Inr default_obj"
| "get_object_from_arg globals (Some arg) superclass default_obj =
     (case globals arg of
        None \<Rightarrow> Inl (ValueError (InvalidArgument arg))
      | Some obj \<Rightarrow>
          and_then (issubclass_obj obj superclass)
            (\<lambda>is_sub. if \<not> is_sub then Inl (ValueError (IsNotA arg superclass)) else Inr obj))"

text \<open>The namespace returned by \<open>get_args\<close>: one positional string and four options.\<close>

record args =
  task :: string
  config :: "string option"
  loadpath :: "string option"
  savepath :: "string option"
  controller :: "string option"

text \<open>
  Item assignment \<open>obj[key] = v\<close>: a dictionary is updated (an existing key keeps its
  place, a new one is added); a class, a string, a number, \<open>None\<close> and the others do
  not support it.
\<close>

fun setitem :: "pyval \<Rightarrow> string \<Rightarrow> pyval \<Rightarrow> error + pyval" where
  "setitem (DictVal d) k v = Inr (DictVal (AList.update k v d))"
| "setitem obj k v = Inl TypeError"

text \<open>
  The last line of the script, \<open>task(**config).run_experiment()\<close>, leaves the program:
  the task classes are not part of the model. The model returns the call that is made,
  the task class and the keyword arguments; unpacking with \<open>**\<close> needs a mapping.
\<close>

fun run_task :: "pyval \<Rightarrow> pyval \<Rightarrow> error + (pyval \<times> (string \<times> pyval) list)" where
  "run_task task_obj (DictVal d) = Inr (task_obj, d)"
| "run_task task_obj obj = Inl TypeError"

text \<open>Lines 58 to 64 of \<open>run.py\<close>: the three overrides, in the order of the script.\<close>

definition override_config :: "pyval \<Rightarrow> pyval \<Rightarrow> string option \<Rightarrow> string option \<Rightarrow> error + pyval" where
  "override_config config0 controller_obj lp sp =
     and_then (if controller_obj \<noteq> NoneVal then setitem config0 ''model_type'' controller_obj
               else Inr config0)
       (\<lambda>config1.
     and_then (case lp of None \<Rightarrow> Inr config1
               | Some p \<Rightarrow> setitem config1 ''load_path'' (StrVal p))
       (\<lambda>config2.
               (case sp of None \<Rightarrow> Inr config2
                | Some p \<Rightarrow> setitem config2 ''save_path'' (StrVal p))))"

text \<open>The script under \<open>__main__\<close>, after \<open>get_args\<close>.\<close>

definition main :: "namespace \<Rightarrow> args \<Rightarrow> error + (pyval \<times> (string \<times> pyval) list)" where
  "main globals a =
     and_then (get_object_from_arg globals (Some (task a)) ''Task'' NoneVal)
       (\<lambda>task_obj.
     and_then (get_object_from_arg globals (config a) ''dict'' (DictVal []))
       (\<lambda>config0.
     and_then (get_object_from_arg globals (controller a) ''AbstractController'' NoneVal)
       (\<lambda>controller_obj.
     and_then (override_config config0 controller_obj (loadpath a) (savepath a))
       (\<lambda>config3. run_task task_obj config3))))"


definition dyck_args :: args where
  "dyck_args = \<lparr>task = ''CFGTask'', config = Some ''dyck_config'', loadpath = None,
     savepath = None, controller = None\<rparr>"

definition plain_args :: args where
  "plain_args = \<lparr>task = ''CFGTask'', config = None, loadpath = None,
     savepath = None, controller = None\<rparr>"

text \<open>
  A namespace for the examples: the task and the controller that the usage notes of
  \<open>run.py\<close> name, \<open>dyck_config\<close> as \<open>tasks/configs.py\<close> defines it (the grammar is an
  object of the formalism layer), and two names \<open>run.py\<close> itself binds.
\<close>

definition dyck_config :: pyval where
  "dyck_config = DictVal
     [(''grammar'', Instance ''CFG''),
      (''to_predict'', ListVal [StrVal '')'', StrVal '']'']),
      (''sample_depth'', IntVal 5)]"

definition run_globals :: namespace where
  "run_globals = map_of
     [(''CFGTask'', ClassObj (PyClass ''CFGTask'' [''Task'', ''object''])),
      (''BufferedController'',
         ClassObj (PyClass ''BufferedController'' [''AbstractController'', ''Module'', ''object''])),
      (''dyck_config'', dyck_config),
      (''get_args'', FunctionObj ''get_args''),
      (''argparse'', ModuleObj ''argparse'')]"

section \<open>The controller: \<open>models/base.py\<close>\<close>

subsection \<open>What the controller is built on\<close>

text \<open>
  Modelled from the spec: the enumeration \<open>structs.Operation\<close>, of which
  \<open>models/base.py\<close> uses the members \<open>push\<close> and \<open>pop\<close>; the spec names the same two
  operation kinds.
\<close>

datatype Operation = push | pop

text \<open>
  Modelled from the spec: the class \<open>InterfaceRegTracker\<close>, which \<open>models/base.py\<close>
  instantiates and which is not among the source files (the file does not import the
  name either; the model takes it to be bound to the tracker of the spec). The spec's
  tracker keeps a running scalar sum per operation kind, with \<open>reset()\<close>,
  \<open>add(operation_kind, value)\<close> and \<open>total()\<close>. Scalars are real numbers.
\<close>

record InterfaceRegTracker =
  push_sum :: real
  pop_sum :: real

definition new_tracker :: InterfaceRegTracker where
  "new_tracker = \<lparr>push_sum = 0, pop_sum = 0\<rparr>"

definition tracker_reset :: "InterfaceRegTracker \<Rightarrow> InterfaceRegTracker" where
  "tracker_reset t = t\<lparr>push_sum := 0, pop_sum := 0\<rparr>"

fun tracker_add :: "Operation \<Rightarrow> real \<Rightarrow> InterfaceRegTracker \<Rightarrow> InterfaceRegTracker" where
  "tracker_add push v t = t\<lparr>push_sum := push_sum t + v\<rparr>"
| "tracker_add pop v t = t\<lparr>pop_sum := pop_sum t + v\<rparr>"

definition tracker_total :: "InterfaceRegTracker \<Rightarrow> real" where
  "tracker_total t = push_sum t + pop_sum t"

text \<open>
  Trackers are objects that a controller and its structure share, so they live in a
  store: a list of trackers, a reference being an index into it. Creating a tracker
  appends one.
\<close>

type_synonym ref = nat

text \<open>
  Modelled from the spec: the structure classes (\<open>structs.base.Struct\<close> and its
  subclasses), which \<open>models/base.py\<close> constructs and configures and which are not among
  the source files. From the spec's contract of the neural data structure:
  \<open>initialize(batch_size, vector_size)\<close> allocates empty state for \<open>batch_size\<close>
  independent instances and fails if \<open>vector_size \<le> 0\<close> or \<open>batch_size \<le> 0\<close>;
  \<open>set_regularization_tracker\<close> attaches the accumulator;
  \<open>set_regularization_weight\<close> records the coefficient of an operation kind; applying
  control signals adds, for each configured operation kind, a weighted penalty to the
  attached tracker. The spec does not say which exception \<open>initialize\<close> raises; it is
  \<open>StructError\<close> here.
\<close>

record Struct =
  variant :: pyclass
  batch_size :: int
  vector_size :: int
  contents :: "real list list list"
  tracker :: "ref option"
  push_weight :: "real option"
  pop_weight :: "real option"

definition initialize :: "pyclass \<Rightarrow> int \<Rightarrow> int \<Rightarrow> error + Struct" where
  "initialize cls b v =
     (if v \<le> 0 \<or> b \<le> 0 then Inl StructError
      else Inr \<lparr>variant = cls, batch_size = b, vector_size = v,
                contents = replicate (nat b) [],
                tracker = None, push_weight = None, pop_weight = None\<rparr>)"

definition set_reg_tracker :: "ref \<Rightarrow> Struct \<Rightarrow> Struct" where
  "set_reg_tracker r st = st\<lparr>tracker := Some r\<rparr>"

fun set_reg_weight :: "Operation \<Rightarrow> real \<Rightarrow> Struct \<Rightarrow> Struct" where
  "set_reg_weight push w st = st\<lparr>push_weight := Some w\<rparr>"
| "set_reg_weight pop w st = st\<lparr>pop_weight := Some w\<rparr>"

text \<open>
  \<open>torch.zeros([m, n])\<close> of PyTorch: an \<open>m\<close> by \<open>n\<close> tensor of zeros, a list of \<open>m\<close> rows
  here; a negative dimension is refused with a \<open>RuntimeError\<close>.
\<close>

definition torch_zeros :: "int \<Rightarrow> int \<Rightarrow> error + real list list" where
  "torch_zeros m n =
     (if m < 0 \<or> n < 0 then Inl RuntimeError
      else Inr (replicate (nat m) (replicate (nat n) 0)))"

subsection \<open>The state of a controller\<close>

text \<open>
  The attributes \<open>AbstractController.__init__\<close> sets. The fields of a subclass (its
  input and output buffers) are the extension of the record; the network is an
  object of a type the subclass chooses.
\<close>

record 'net AbstractController =
  struct_type :: pyclass
  struct :: "Struct option"
  network :: "'net option"
  read_size :: int
  read :: "real list list option"
  reg_tracker :: ref
  push_reg_weight :: real
  pop_reg_weight :: real

text \<open>The program state: the controller and the store of trackers.\<close>

record ('net, 'sub) world =
  self :: "('net, 'sub) AbstractController_scheme"
  trackers :: "InterfaceRegTracker list"

text \<open>
  A method returns the exception it raised, if any, together with the state it left
  behind: an exception does not undo the assignments made before it.
\<close>

type_synonym ('net, 'sub) action = "('net, 'sub) world \<Rightarrow> error option \<times> ('net, 'sub) world"

definition then_do :: "('net, 'sub) action \<Rightarrow> ('net, 'sub) action \<Rightarrow> ('net, 'sub) action" where
  "then_do f g s = (case f s of (None, s1) \<Rightarrow> g s1 | (Some e, s1) \<Rightarrow> (Some e, s1))"

subsection \<open>The methods\<close>

text \<open>
  \<open>AbstractController.__init__(read_size, struct_type, push_reg_weight, pop_reg_weight)\<close>:
  the one place where a tracker is created. \<open>sub\<close> holds the fields of the subclass.
\<close>

definition AbstractController_init ::
  "int \<Rightarrow> pyclass \<Rightarrow> real \<Rightarrow> real \<Rightarrow> 'sub \<Rightarrow> InterfaceRegTracker list \<Rightarrow> ('net, 'sub) world" where
  "AbstractController_init rs st pw qw sub store =
     \<lparr>self = \<lparr>struct_type = st, struct = None, network = None, read_size = rs,
              read = None, reg_tracker = length store,
              push_reg_weight = pw, pop_reg_weight = qw, \<dots> = sub\<rparr>,
      trackers = store @ [new_tracker]\<rparr>"

text \<open>\<open>_init_struct(batch_size)\<close>.\<close>

definition init_struct :: "int \<Rightarrow> ('net, 'sub) action" where
  "init_struct b s =
     (let c = self s in
      if \<not> issubclass (struct_type c) ''Struct''
      then (Some (ValueError (NotAStruct (struct_type c))), s)
      else
        (case torch_zeros b (read_size c) of
           Inl e \<Rightarrow> (Some e, s)
         | Inr z \<Rightarrow>
             (let c1 = c\<lparr>read := Some z\<rparr> in
              case initialize (struct_type c1) b (read_size c1) of
                Inl e \<Rightarrow> (Some e, s\<lparr>self := c1\<rparr>)
              | Inr st \<Rightarrow>
                  (None, s\<lparr>self := c1\<lparr>struct :=
                     Some (set_reg_weight pop (pop_reg_weight c1)
                            (set_reg_weight push (push_reg_weight c1)
                              (set_reg_tracker (reg_tracker c1) st)))\<rparr>\<rparr>))))"

text \<open>
  \<open>_init_buffer(batch_size, xs)\<close> is abstract: a subclass overrides it. By its
  documentation it initialises the input and output buffers, which are fields of the
  subclass, so the override is a parameter \<open>ib\<close> that works on those fields and may
  raise. \<open>xs\<close> has the dimensions batch size, length, read size.
\<close>

type_synonym 'sub buffer_init = "int \<Rightarrow> real list list list \<Rightarrow> 'sub \<Rightarrow> error option \<times> 'sub"

definition init_buffer :: "'sub buffer_init \<Rightarrow> int \<Rightarrow> real list list list \<Rightarrow> ('net, 'sub) action" where
  "init_buffer ib b xs s =
     (case ib b xs (AbstractController.more (self s)) of
        (r, sub) \<Rightarrow> (r, s\<lparr>self := (self s)\<lparr>AbstractController.more := sub\<rparr>\<rparr>))"

text \<open>
  \<open>_init_network(batch_size)\<close> calls \<open>self._network.init_network(batch_size)\<close>. The
  network classes are not among the source files; the method of the network is a
  parameter \<open>inw\<close> that works on the network object. The constructor leaves
  \<open>_network\<close> at \<open>None\<close>, on which the attribute access raises.
\<close>

type_synonym 'net network_init = "int \<Rightarrow> 'net \<Rightarrow> error option \<times> 'net"

definition init_network :: "'net network_init \<Rightarrow> int \<Rightarrow> ('net, 'sub) action" where
  "init_network inw b s =
     (case network (self s) of
        None \<Rightarrow> (Some AttributeError, s)
      | Some n \<Rightarrow>
          (case inw b n of (r, n1) \<Rightarrow> (r, s\<lparr>self := (self s)\<lparr>network := Some n1\<rparr>\<rparr>)))"

text \<open>\<open>init_controller(batch_size, xs)\<close>.\<close>

definition init_controller ::
  "'sub buffer_init \<Rightarrow> 'net network_init \<Rightarrow> int \<Rightarrow> real list list list \<Rightarrow> ('net, 'sub) action" where
  "init_controller ib inw b xs =
     then_do (init_struct b) (then_do (init_buffer ib b xs) (init_network inw b))"

text \<open>
  The call \<open>self.init_controller(batch_size, **kwargs)\<close>: the keyword arguments (an
  association list with distinct keys) must bind exactly the one parameter left,
  \<open>xs\<close>; a missing or an unexpected keyword is a \<open>TypeError\<close>.
\<close>

fun init_controller_kwargs ::
  "'sub buffer_init \<Rightarrow> 'net network_init \<Rightarrow> int \<Rightarrow> (string \<times> real list list list) list
     \<Rightarrow> ('net, 'sub) action" where
  "init_controller_kwargs ib inw b [(k, xs)] s =
     (if k = ''xs'' then init_controller ib inw b xs s else (Some TypeError, s))"
| "init_controller_kwargs ib inw b kwargs s = (Some TypeError, s)"

text \<open>\<open>init_stack(batch_size, **kwargs)\<close>, kept for compatibility.\<close>

definition init_stack ::
  "'sub buffer_init \<Rightarrow> 'net network_init \<Rightarrow> int \<Rightarrow> (string \<times> real list list list) list
     \<Rightarrow> ('net, 'sub) action" where
  "init_stack ib inw b kwargs s = init_controller_kwargs ib inw b kwargs s"

text \<open>\<open>get_and_reset_reg_loss()\<close>: returns the float \<open>0.\<close>.\<close>

definition get_and_reset_reg_loss :: "('net, 'sub) world \<Rightarrow> real \<times> ('net, 'sub) world" where
  "get_and_reset_reg_loss s = (0, s)"

subsection \<open>A concrete controller for the examples\<close>

text \<open>
  Modelled from the spec: what applying control signals does to the tracker. The
  structure classes are not among the source files; by the spec, \<open>apply\<close> adds to the
  attached tracker, for each operation kind with a configured weight, the weight times
  a measure of the operation's magnitude. \<open>pm\<close> and \<open>qm\<close> are the magnitudes of the push
  and of the pop. Without a structure or an attached tracker the call raises.
\<close>

definition add_penalty :: "Operation \<Rightarrow> real option \<Rightarrow> real \<Rightarrow> InterfaceRegTracker \<Rightarrow> InterfaceRegTracker" where
  "add_penalty kind w m t = (case w of None \<Rightarrow> t | Some c \<Rightarrow> tracker_add kind (c * m) t)"

definition apply_penalties :: "real \<Rightarrow> real \<Rightarrow> ('net, 'sub) action" where
  "apply_penalties pm qm s =
     (case struct (self s) of
        None \<Rightarrow> (Some AttributeError, s)
      | Some st \<Rightarrow>
          (case tracker st of
             None \<Rightarrow> (Some AttributeError, s)
           | Some r \<Rightarrow>
               if r < length (trackers s)
               then (None, s\<lparr>trackers := (trackers s)
                       [r := add_penalty pop (pop_weight st) qm
                               (add_penalty push (push_weight st) pm (trackers s ! r))]\<rparr>)
               else (Some AttributeError, s)))"

text \<open>
  Modelled from the spec: a subclass with an input and an output buffer, whose
  \<open>_init_buffer\<close> populates the input buffer from the input sequence and resets the
  output buffer to empty, and a stateless network, for which initialising the state
  is a no-op. The controller subclasses and the networks are not among the source
  files.
\<close>

record buffers =
  input_buffer :: "real list list list"
  output_buffer :: "real list list list"

definition fill_buffers :: "buffers buffer_init" where
  "fill_buffers b xs sub = (None, sub\<lparr>input_buffer := xs, output_buffer := []\<rparr>)"

definition stateless :: "unit network_init" where
  "stateless b n = (None, n)"

text \<open>
  A controller of stacks with read size 2 and both regularization weights 1, as a
  subclass constructor leaves it: the base constructor has run on an empty store and
  the subclass has set its network.
\<close>

definition Stack :: pyclass where
  "Stack = PyClass ''Stack'' [''Struct'', ''Module'', ''object'']"

definition stack_controller :: "(unit, buffers) world" where
  "stack_controller =
     (let s = AbstractController_init 2 Stack 1 1 \<lparr>input_buffer = [], output_buffer = []\<rparr> []
      in s\<lparr>self := (self s)\<lparr>network := Some ()\<rparr>\<rparr>)"

text \<open>The same controller configured with a class that is not a structure.\<close>

definition list_controller :: "(unit, buffers) world" where
  "list_controller =
     stack_controller\<lparr>self := (self stack_controller)\<lparr>struct_type := PyClass ''list'' [''object'']\<rparr>\<rparr>"

text \<open>
  The same controller after a first batch of one sequence, in which one application of
  control signals with push and pop magnitude one half has been charged to the tracker.
\<close>

definition after_first_batch :: "(unit, buffers) world" where
  "after_first_batch =
     snd (apply_penalties (1/2) (1/2)
            (snd (init_controller fill_buffers stateless 1 [[[1, 0]]] stack_controller)))"


section \<open>Properties\<close>

subsection \<open>The steps of \<open>init_controller\<close>, one at a time\<close>

lemma issubclass_Stack: "issubclass Stack ''Struct''"
  by (simp add: issubclass_def Stack_def)

lemma then_do_None: "f s = (None, s1) \<Longrightarrow> then_do f g s = g s1"
  by (simp add: then_do_def)

lemma then_do_Some: "f s = (Some e, s1) \<Longrightarrow> then_do f g s = (Some e, s1)"
  by (simp add: then_do_def)

lemma init_struct_not_Struct:
  "\<not> issubclass (struct_type (self s)) ''Struct'' \<Longrightarrow>
   init_struct b s = (Some (ValueError (NotAStruct (struct_type (self s)))), s)"
  by (simp add: init_struct_def)

lemma init_struct_negative:
  "issubclass (struct_type (self s)) ''Struct'' \<Longrightarrow> b < 0 \<or> read_size (self s) < 0 \<Longrightarrow>
   init_struct b s = (Some RuntimeError, s)"
  by (simp add: init_struct_def torch_zeros_def Let_def)

lemma init_struct_zero:
  "issubclass (struct_type (self s)) ''Struct'' \<Longrightarrow> 0 \<le> b \<Longrightarrow> 0 \<le> read_size (self s) \<Longrightarrow>
   b = 0 \<or> read_size (self s) = 0 \<Longrightarrow>
   init_struct b s =
     (Some StructError,
      s\<lparr>self := (self s)\<lparr>read := Some (replicate (nat b) (replicate (nat (read_size (self s))) 0))\<rparr>\<rparr>)"
  by (auto simp add: init_struct_def torch_zeros_def initialize_def Let_def)

lemma init_struct_positive:
  "issubclass (struct_type (self s)) ''Struct'' \<Longrightarrow> 0 < b \<Longrightarrow> 0 < read_size (self s) \<Longrightarrow>
   init_struct b s =
     (None,
      s\<lparr>self := (self s)
         \<lparr>read := Some (replicate (nat b) (replicate (nat (read_size (self s))) 0)),
          struct := Some
            (set_reg_weight pop (pop_reg_weight (self s))
              (set_reg_weight push (push_reg_weight (self s))
                (set_reg_tracker (reg_tracker (self s))
                  \<lparr>variant = struct_type (self s), batch_size = b,
                   vector_size = read_size (self s), contents = replicate (nat b) [],
                   tracker = None, push_weight = None, pop_weight = None\<rparr>)))\<rparr>\<rparr>)"
  by (simp add: init_struct_def torch_zeros_def initialize_def Let_def)

lemma init_struct_ok_iff:
  "fst (init_struct b s) = None \<longleftrightarrow>
   issubclass (struct_type (self s)) ''Struct'' \<and> 0 < b \<and> 0 < read_size (self s)"
  by (auto simp add: init_struct_def torch_zeros_def initialize_def Let_def)

lemma init_struct_frame:
  "trackers (snd (init_struct b s)) = trackers s \<and>
   reg_tracker (self (snd (init_struct b s))) = reg_tracker (self s) \<and>
   AbstractController.more (self (snd (init_struct b s))) = AbstractController.more (self s) \<and>
   network (self (snd (init_struct b s))) = network (self s) \<and>
   read_size (self (snd (init_struct b s))) = read_size (self s)"
  by (simp add: init_struct_def torch_zeros_def initialize_def Let_def)

lemma init_buffer_frame:
  "trackers (snd (init_buffer ib b xs s)) = trackers s \<and>
   reg_tracker (self (snd (init_buffer ib b xs s))) = reg_tracker (self s) \<and>
   struct (self (snd (init_buffer ib b xs s))) = struct (self s) \<and>
   read (self (snd (init_buffer ib b xs s))) = read (self s) \<and>
   network (self (snd (init_buffer ib b xs s))) = network (self s)"
  by (simp add: init_buffer_def split: prod.splits)

lemma init_network_frame:
  "trackers (snd (init_network inw b s)) = trackers s \<and>
   reg_tracker (self (snd (init_network inw b s))) = reg_tracker (self s) \<and>
   struct (self (snd (init_network inw b s))) = struct (self s) \<and>
   read (self (snd (init_network inw b s))) = read (self s) \<and>
   AbstractController.more (self (snd (init_network inw b s))) = AbstractController.more (self s)"
  by (simp add: init_network_def split: prod.splits option.splits)

lemma init_controller_unfold:
  "init_controller ib inw b xs s =
     (case init_struct b s of
        (Some e, s1) \<Rightarrow> (Some e, s1)
      | (None, s1) \<Rightarrow>
          (case init_buffer ib b xs s1 of
             (Some e, s2) \<Rightarrow> (Some e, s2)
           | (None, s2) \<Rightarrow> init_network inw b s2))"
  by (simp add: init_controller_def then_do_def split: prod.splits option.splits)

lemma init_controller_ok_struct:
  "fst (init_controller ib inw b xs s) = None \<Longrightarrow> fst (init_struct b s) = None"
  by (simp add: init_controller_unfold split: prod.splits option.splits)

lemma init_controller_after_struct:
  "snd (init_controller ib inw b xs s) = snd (init_struct b s) \<or>
   snd (init_controller ib inw b xs s) = snd (init_buffer ib b xs (snd (init_struct b s))) \<or>
   snd (init_controller ib inw b xs s) =
     snd (init_network inw b (snd (init_buffer ib b xs (snd (init_struct b s)))))"
  by (simp add: init_controller_unfold split: prod.splits option.splits)

lemma init_controller_frame:
  "trackers (snd (init_controller ib inw b xs s)) = trackers s \<and>
   reg_tracker (self (snd (init_controller ib inw b xs s))) = reg_tracker (self s) \<and>
   struct (self (snd (init_controller ib inw b xs s))) = struct (self (snd (init_struct b s))) \<and>
   read (self (snd (init_controller ib inw b xs s))) = read (self (snd (init_struct b s)))"
  using init_controller_after_struct [of ib inw b xs s]
    init_struct_frame [of b s]
    init_buffer_frame [of ib b xs "snd (init_struct b s)"]
    init_network_frame [of inw b "snd (init_buffer ib b xs (snd (init_struct b s)))"]
  by auto

lemma first_batch:
  "init_controller fill_buffers stateless 1 [[[1, 0]]] stack_controller =
     (None,
      \<lparr>self = \<lparr>struct_type = Stack,
                struct = Some \<lparr>variant = Stack, batch_size = 1, vector_size = 2,
                                contents = [[]], tracker = Some 0,
                                push_weight = Some 1, pop_weight = Some 1\<rparr>,
                network = Some (), read_size = 2, read = Some [[0, 0]],
                reg_tracker = 0, push_reg_weight = 1, pop_reg_weight = 1,
                input_buffer = [[[1, 0]]], output_buffer = []\<rparr>,
       trackers = [\<lparr>push_sum = 0, pop_sum = 0\<rparr>]\<rparr>)"
  by (simp add: init_controller_def then_do_def init_struct_def init_buffer_def init_network_def
      stack_controller_def AbstractController_init_def issubclass_Stack torch_zeros_def
      initialize_def set_reg_tracker_def fill_buffers_def stateless_def new_tracker_def Let_def
      numeral_2_eq_2)

lemma after_first_batch_eq:
  "after_first_batch =
      \<lparr>self = \<lparr>struct_type = Stack,
                struct = Some \<lparr>variant = Stack, batch_size = 1, vector_size = 2,
                                contents = [[]], tracker = Some 0,
                                push_weight = Some 1, pop_weight = Some 1\<rparr>,
                network = Some (), read_size = 2, read = Some [[0, 0]],
                reg_tracker = 0, push_reg_weight = 1, pop_reg_weight = 1,
                input_buffer = [[[1, 0]]], output_buffer = []\<rparr>,
       trackers = [\<lparr>push_sum = 1 / 2, pop_sum = 1 / 2\<rparr>]\<rparr>"
  by (simp add: after_first_batch_def first_batch apply_penalties_def add_penalty_def)


lemma stack_controller_eq:
  "stack_controller =
     \<lparr>self = \<lparr>struct_type = Stack, struct = None, network = Some (), read_size = 2,
              read = None, reg_tracker = 0, push_reg_weight = 1, pop_reg_weight = 1,
              input_buffer = [], output_buffer = []\<rparr>,
      trackers = [\<lparr>push_sum = 0, pop_sum = 0\<rparr>]\<rparr>"
  by (simp add: stack_controller_def AbstractController_init_def new_tracker_def Let_def)

subsection \<open>Resolving names and building the configuration\<close>

lemma get_object_from_arg_missing:
  "g arg = None \<Longrightarrow>
   get_object_from_arg g (Some arg) S d = Inl (ValueError (InvalidArgument arg))"
  by simp

lemma get_object_from_arg_class:
  "g arg = Some (ClassObj c) \<Longrightarrow>
   get_object_from_arg g (Some arg) S d =
     (if issubclass c S then Inr (ClassObj c) else Inl (ValueError (IsNotA arg S)))"
  by (simp add: and_then_def)


lemma setitem_Inr:
  "setitem obj k v = Inr obj' \<Longrightarrow> \<exists>d. obj = DictVal d \<and> obj' = DictVal (AList.update k v d)"
  by (cases obj) simp_all


lemma override_config_dict:
  "override_config (DictVal base) ctrl lp sp =
     Inr (DictVal
       ((case sp of None \<Rightarrow> id | Some p \<Rightarrow> AList.update ''save_path'' (StrVal p))
         ((case lp of None \<Rightarrow> id | Some p \<Rightarrow> AList.update ''load_path'' (StrVal p))
           ((if ctrl \<noteq> NoneVal then AList.update ''model_type'' ctrl else id) base))))"
  by (simp add: override_config_def and_then_def split: option.splits)





subsection \<open>The regularization loss\<close>

text \<open>
  Claim C1, as the code has it. On \<open>AbstractController\<close>, \<open>get_and_reset_reg_loss\<close>
  returns the constant \<open>0\<close> in every state and leaves the controller and every tracker
  as they were: it neither reads the total of the attached tracker nor resets it. (Its
  docstring leaves the buffered regularization to an overriding subclass.)
\<close>

theorem get_and_reset_reg_loss_constant:
  "get_and_reset_reg_loss s = (0, s)"
  by (simp add: get_and_reset_reg_loss_def)

theorem get_and_reset_reg_loss_constant_witness:
  "get_and_reset_reg_loss after_first_batch = (0, after_first_batch) \<and>
   tracker_total (trackers after_first_batch ! reg_tracker (self after_first_batch)) = 1"
proof -
  have "tracker_total (trackers after_first_batch ! reg_tracker (self after_first_batch)) = 1"
    by (simp add: after_first_batch_eq tracker_total_def)
  with get_and_reset_reg_loss_constant [of after_first_batch] show ?thesis by simp
qed

text \<open>
  Claim C1, as it is written, fails: after a first batch in which penalties of weight 1
  and magnitude one half were charged for a push and for a pop, the tracker's total is
  1, the value returned is 0, and the tracker still holds 1 afterwards.
\<close>

theorem get_and_reset_reg_loss_counterexample:
  "tracker_total (trackers after_first_batch ! reg_tracker (self after_first_batch)) = 1 \<and>
   fst (get_and_reset_reg_loss after_first_batch) \<noteq>
     tracker_total (trackers after_first_batch ! reg_tracker (self after_first_batch)) \<and>
   tracker_total (trackers (snd (get_and_reset_reg_loss after_first_batch)) !
     reg_tracker (self (snd (get_and_reset_reg_loss after_first_batch)))) \<noteq> 0"
  by (simp add: get_and_reset_reg_loss_def after_first_batch_eq tracker_total_def)

subsection \<open>The tracker across batches\<close>




subsection \<open>The order of initialization\<close>



subsection \<open>The check of the structure type\<close>

text \<open>
  Claim C4. When the configured \<open>struct_type\<close> is not a subclass of \<open>Struct\<close>,
  \<open>init_controller\<close> raises the \<open>ValueError\<close> of \<open>_init_struct\<close> and the whole state
  (read vector, structure, buffers, network, trackers) is what it was before the call.
  When it is a subclass, \<open>_init_struct\<close> raises no \<open>ValueError\<close> at all, and a
  \<open>ValueError\<close> of \<open>init_controller\<close> can only be one that the subclass's
  \<open>_init_buffer\<close> or the network's \<open>init_network\<close> raised.
\<close>

theorem init_controller_struct_type_check:
  "(\<not> issubclass (struct_type (self s)) ''Struct'' \<longrightarrow>
      init_controller ib inw b xs s =
        (Some (ValueError (NotAStruct (struct_type (self s)))), s)) \<and>
   (issubclass (struct_type (self s)) ''Struct'' \<longrightarrow>
      fst (init_struct b s) \<noteq> Some (ValueError m) \<and>
      (fst (init_controller ib inw b xs s) = Some (ValueError m) \<longrightarrow>
         fst (ib b xs (AbstractController.more (self s))) = Some (ValueError m) \<or>
         (\<exists>n. network (self s) = Some n \<and> fst (inw b n) = Some (ValueError m))))"
proof -
  have first: "init_controller ib inw b xs s =
        (Some (ValueError (NotAStruct (struct_type (self s)))), s)"
    if "\<not> issubclass (struct_type (self s)) ''Struct''"
    using that by (simp add: init_controller_def then_do_def init_struct_not_Struct)
  have second: "fst (init_struct b s) \<noteq> Some (ValueError m)"
    if "issubclass (struct_type (self s)) ''Struct''"
    using that by (simp add: init_struct_def torch_zeros_def initialize_def Let_def)
  have third: "fst (ib b xs (AbstractController.more (self s))) = Some (ValueError m) \<or>
         (\<exists>n. network (self s) = Some n \<and> fst (inw b n) = Some (ValueError m))"
    if sub: "issubclass (struct_type (self s)) ''Struct''"
      and err: "fst (init_controller ib inw b xs s) = Some (ValueError m)"
  proof -
    define s1 where "s1 = snd (init_struct b s)"
    define s2 where "s2 = snd (init_buffer ib b xs s1)"
    have m1: "AbstractController.more (self s1) = AbstractController.more (self s)"
      and n1: "network (self s1) = network (self s)"
      using init_struct_frame [of b s] by (simp_all add: s1_def)
    have n2: "network (self s2) = network (self s1)"
      using init_buffer_frame [of ib b xs s1] by (simp add: s2_def)
    have b1: "fst (init_buffer ib b xs s1) = fst (ib b xs (AbstractController.more (self s)))"
      by (simp add: init_buffer_def m1 split: prod.splits)
    from err second [OF sub] have
      "fst (init_buffer ib b xs s1) = Some (ValueError m) \<or>
       fst (init_network inw b s2) = Some (ValueError m)"
      by (auto simp add: init_controller_unfold s1_def s2_def split: prod.splits option.splits)
    then show ?thesis
    proof
      assume "fst (init_buffer ib b xs s1) = Some (ValueError m)"
      with b1 show ?thesis by simp
    next
      assume "fst (init_network inw b s2) = Some (ValueError m)"
      then have "\<exists>n. network (self s2) = Some n \<and> fst (inw b n) = Some (ValueError m)"
        by (auto simp add: init_network_def split: option.splits prod.splits)
      with n1 n2 show ?thesis by simp
    qed
  qed
  from first second third show ?thesis by blast
qed

theorem init_controller_struct_type_check_witness:
  "init_controller fill_buffers stateless 1 [[[1, 0]]] list_controller =
     (Some (ValueError (NotAStruct (PyClass ''list'' [''object'']))), list_controller) \<and>
   fst (init_controller fill_buffers stateless 1 [[[1, 0]]] stack_controller) \<noteq>
     Some (ValueError (NotAStruct Stack))"
proof -
  have no: "\<not> issubclass (struct_type (self list_controller)) ''Struct''"
    by (simp add: list_controller_def issubclass_def)
  have ty: "struct_type (self list_controller) = PyClass ''list'' [''object'']"
    by (simp add: list_controller_def)
  from init_controller_struct_type_check
    [of list_controller fill_buffers stateless 1 "[[[1, 0]]]" "NotAStruct Stack"] no ty
  have first: "init_controller fill_buffers stateless 1 [[[1, 0]]] list_controller =
     (Some (ValueError (NotAStruct (PyClass ''list'' [''object'']))), list_controller)"
    by simp
  have yes: "issubclass (struct_type (self stack_controller)) ''Struct''"
    by (simp add: stack_controller_eq issubclass_Stack)
  have quiet: "fst (fill_buffers 1 [[[1, 0]]] (AbstractController.more (self stack_controller))) = None"
    "\<And>n. fst (stateless 1 n) = None"
    by (simp_all add: fill_buffers_def stateless_def)
  from init_controller_struct_type_check
    [of stack_controller fill_buffers stateless 1 "[[[1, 0]]]" "NotAStruct Stack"] yes quiet
  have second: "fst (init_controller fill_buffers stateless 1 [[[1, 0]]] stack_controller) \<noteq>
     Some (ValueError (NotAStruct Stack))"
    by auto
  from first second show ?thesis by simp
qed

subsection \<open>The read vector after initialization\<close>

text \<open>
  Claim C5. For a batch size \<open>B > 0\<close> and a configured read size \<open>R > 0\<close>, when
  \<open>init_controller\<close> has returned, the read vector is the \<open>B\<close> by \<open>R\<close> tensor of zeros:
  \<open>B\<close> rows, each of length \<open>R\<close>, every entry 0.
\<close>

theorem init_controller_read_zeros:
  assumes "0 < b" and "0 < read_size (self s)"
    and "fst (init_controller ib inw b xs s) = None"
  shows "\<exists>z. read (self (snd (init_controller ib inw b xs s))) = Some z \<and>
           z = replicate (nat b) (replicate (nat (read_size (self s))) 0) \<and>
           length z = nat b \<and>
           (\<forall>row \<in> set z. length row = nat (read_size (self s)) \<and> (\<forall>x \<in> set row. x = 0))"
proof -
  from assms(3) have "fst (init_struct b s) = None"
    by (rule init_controller_ok_struct)
  then have "issubclass (struct_type (self s)) ''Struct''"
    by (simp add: init_struct_ok_iff)
  with assms(1,2) have "read (self (snd (init_struct b s))) =
      Some (replicate (nat b) (replicate (nat (read_size (self s))) 0))"
    by (simp add: init_struct_positive)
  then have "read (self (snd (init_controller ib inw b xs s))) =
      Some (replicate (nat b) (replicate (nat (read_size (self s))) 0))"
    using init_controller_frame [of ib inw b xs s] by simp
  then show ?thesis by simp
qed

theorem init_controller_read_zeros_witness:
  "fst (init_controller fill_buffers stateless 1 [[[1, 0]]] stack_controller) = None \<and>
   read (self (snd (init_controller fill_buffers stateless 1 [[[1, 0]]] stack_controller))) =
     Some [[0, 0]]"
proof -
  have ok: "fst (init_controller fill_buffers stateless 1 [[[1, 0]]] stack_controller) = None"
    by (simp add: first_batch)
  have sz: "read_size (self stack_controller) = 2"
    by (simp add: stack_controller_eq)
  have pos: "(0::int) < 1" "0 < read_size (self stack_controller)"
    by (simp_all add: sz)
  from init_controller_read_zeros [OF pos ok]
  have "read (self (snd (init_controller fill_buffers stateless 1 [[[1, 0]]] stack_controller))) =
     Some (replicate (nat 1) (replicate (nat (read_size (self stack_controller))) 0))"
    by blast
  then have "read (self (snd (init_controller fill_buffers stateless 1 [[[1, 0]]] stack_controller))) =
     Some [[0, 0]]"
    by (simp add: sz numeral_2_eq_2)
  with ok show ?thesis by simp
qed

subsection \<open>Sizes that are not positive\<close>

text \<open>
  Claim C6. With a batch size or a read size that is zero or negative, the structure
  initialization \<open>_init_struct\<close> fails, and so does \<open>init_controller\<close>; it succeeds
  only when both are positive (exactly when, in addition, the structure type is a
  \<open>Struct\<close>). A negative size is refused by \<open>torch.zeros\<close>; a zero size is refused by
  the structure's \<open>initialize\<close>, which is modelled from the spec.
\<close>

theorem init_struct_sizes:
  "(b \<le> 0 \<or> read_size (self s) \<le> 0 \<longrightarrow>
      fst (init_struct b s) \<noteq> None \<and> fst (init_controller ib inw b xs s) \<noteq> None) \<and>
   (fst (init_struct b s) = None \<longrightarrow> 0 < b \<and> 0 < read_size (self s)) \<and>
   (fst (init_controller ib inw b xs s) = None \<longrightarrow> 0 < b \<and> 0 < read_size (self s)) \<and>
   (fst (init_struct b s) = None \<longleftrightarrow>
      issubclass (struct_type (self s)) ''Struct'' \<and> 0 < b \<and> 0 < read_size (self s))"
  using init_struct_ok_iff [of b s] init_controller_ok_struct [of ib inw b xs s]
  by auto

theorem init_struct_sizes_witness:
  "fst (init_struct 0 stack_controller) \<noteq> None \<and>
   fst (init_controller fill_buffers stateless 0 [] stack_controller) \<noteq> None \<and>
   fst (init_struct (- 1) stack_controller) \<noteq> None \<and>
   fst (init_struct 1 stack_controller) = None"
proof -
  have sz: "read_size (self stack_controller) = 2"
    and sub: "issubclass (struct_type (self stack_controller)) ''Struct''"
    by (simp_all add: stack_controller_eq issubclass_Stack)
  from init_struct_sizes [of 0 stack_controller fill_buffers stateless "[]"]
  have zero: "fst (init_struct 0 stack_controller) \<noteq> None"
    "fst (init_controller fill_buffers stateless 0 [] stack_controller) \<noteq> None"
    by simp_all
  from init_struct_sizes [of "- 1" stack_controller fill_buffers stateless "[]"]
  have neg: "fst (init_struct (- 1) stack_controller) \<noteq> None"
    by simp
  from init_struct_sizes [of 1 stack_controller fill_buffers stateless "[]"] sz sub
  have one: "fst (init_struct 1 stack_controller) = None"
    by simp
  from zero neg one show ?thesis by simp
qed

subsection \<open>The compatibility method\<close>

text \<open>
  Claim C10. \<open>init_stack(batch_size, **kwargs)\<close> is the call
  \<open>init_controller(batch_size, **kwargs)\<close>: the same resulting state and the same
  exception for every batch size, keyword arguments and state. With the one keyword
  \<open>xs\<close> it is \<open>init_controller(batch_size, xs)\<close>; without it both raise a
  \<open>TypeError\<close> and leave the state alone.
\<close>

theorem init_stack_equiv:
  "init_stack ib inw b kwargs s = init_controller_kwargs ib inw b kwargs s \<and>
   init_stack ib inw b [(''xs'', xs)] s = init_controller ib inw b xs s \<and>
   init_stack ib inw b [] s = (Some TypeError, s)"
  by (simp add: init_stack_def)

theorem init_stack_equiv_witness:
  "init_stack fill_buffers stateless 1 [(''xs'', [[[1, 0]]])] stack_controller =
     init_controller fill_buffers stateless 1 [[[1, 0]]] stack_controller \<and>
   fst (init_stack fill_buffers stateless 1 [(''xs'', [[[1, 0]]])] stack_controller) = None \<and>
   init_stack fill_buffers stateless 1 [] stack_controller = (Some TypeError, stack_controller) \<and>
   init_controller_kwargs fill_buffers stateless 1 [] stack_controller = (Some TypeError, stack_controller)"
proof -
  note eq = init_stack_equiv [of fill_buffers stateless 1 _ stack_controller "[[[1, 0]]]"]
  from eq [of "[]"] have a: "init_stack fill_buffers stateless 1 [(''xs'', [[[1, 0]]])] stack_controller =
     init_controller fill_buffers stateless 1 [[[1, 0]]] stack_controller"
    and b: "init_stack fill_buffers stateless 1 [] stack_controller = (Some TypeError, stack_controller)"
    and c: "init_stack fill_buffers stateless 1 [] stack_controller =
       init_controller_kwargs fill_buffers stateless 1 [] stack_controller"
    by simp_all
  from a have "fst (init_stack fill_buffers stateless 1 [(''xs'', [[[1, 0]]])] stack_controller) = None"
    by (simp add: first_batch)
  with a b c show ?thesis by simp
qed

subsection \<open>A name bound to an object that is not a class\<close>

text \<open>
  Claim C7 says that a name that is found raises a \<open>ValueError\<close> when its object is not
  a subclass of the expected class, and is returned otherwise. The code evaluated at
  the command line of its own usage notes, \<open>--config dyck_config\<close>: the name is found,
  the object is the dictionary of \<open>tasks/configs.py\<close>, not a class, and
  \<open>issubclass\<close> raises a \<open>TypeError\<close> before the \<open>ValueError\<close> can be raised or the
  object returned; the script ends with that \<open>TypeError\<close>. (For a name bound to a
  class the function does what the claim says: \<open>get_object_from_arg_class\<close> and
  \<open>get_object_from_arg_missing\<close> above.)
\<close>

theorem get_object_from_arg_dict_instance:
  "run_globals ''dyck_config'' = Some dyck_config \<and>
   get_object_from_arg run_globals (Some ''dyck_config'') ''dict'' (DictVal []) = Inl TypeError \<and>
   main run_globals dyck_args = Inl TypeError"
  by (simp add: run_globals_def dyck_config_def and_then_def main_def dyck_args_def issubclass_def)

subsection \<open>The configuration passed to the task\<close>



subsection \<open>Omitted options\<close>

text \<open>
  Claim C9. \<open>get_object_from_arg(None, S, d)\<close> returns \<open>d\<close> for every namespace,
  superclass and default, without raising: the namespace is not consulted. Hence
  without \<open>--config\<close> and \<open>--controller\<close> the script continues with the empty
  dictionary and with \<open>None\<close> for the controller, no \<open>model_type\<close> is set, and
  without the two paths the task is called with no keyword argument at all.
\<close>

theorem get_object_from_arg_None:
  "get_object_from_arg g None S d = Inr d \<and>
   (config a = None \<longrightarrow> controller a = None \<longrightarrow>
      main g a =
        and_then (get_object_from_arg g (Some (task a)) ''Task'' NoneVal)
          (\<lambda>t. and_then (override_config (DictVal []) NoneVal (loadpath a) (savepath a))
                 (run_task t))) \<and>
   (config a = None \<longrightarrow> controller a = None \<longrightarrow> main g a = Inr (t, cfg) \<longrightarrow>
      map_of cfg ''model_type'' = None \<and> (loadpath a = None \<longrightarrow> savepath a = None \<longrightarrow> cfg = []))"
proof -
  have first: "get_object_from_arg g None S d = Inr d" by simp
  have second: "main g a =
        and_then (get_object_from_arg g (Some (task a)) ''Task'' NoneVal)
          (\<lambda>t. and_then (override_config (DictVal []) NoneVal (loadpath a) (savepath a))
                 (run_task t))"
    if "config a = None" "controller a = None"
    using that by (simp add: main_def and_then_def)
  have third: "map_of cfg ''model_type'' = None \<and> (loadpath a = None \<longrightarrow> savepath a = None \<longrightarrow> cfg = [])"
    if c: "config a = None" "controller a = None" and m: "main g a = Inr (t, cfg)"
  proof -
    from m second [OF c] obtain t0 where
      "and_then (override_config (DictVal []) NoneVal (loadpath a) (savepath a)) (run_task t0) = Inr (t, cfg)"
      by (auto simp add: and_then_def split: sum.splits)
    then have cfg: "cfg =
       (case savepath a of None \<Rightarrow> id | Some p \<Rightarrow> AList.update ''save_path'' (StrVal p))
         ((case loadpath a of None \<Rightarrow> id | Some p \<Rightarrow> AList.update ''load_path'' (StrVal p)) [])"
      by (simp add: override_config_dict and_then_def)
    have "map_of cfg ''model_type'' = None"
      unfolding cfg by (cases "savepath a"; cases "loadpath a") (simp_all add: update_conv')
    moreover have "loadpath a = None \<longrightarrow> savepath a = None \<longrightarrow> cfg = []"
      unfolding cfg by simp
    ultimately show ?thesis by blast
  qed
  from first second third show ?thesis by blast
qed

theorem get_object_from_arg_None_witness:
  "get_object_from_arg run_globals None ''dict'' (DictVal []) = Inr (DictVal []) \<and>
   get_object_from_arg Map.empty None ''AbstractController'' NoneVal = Inr NoneVal \<and>
   main run_globals plain_args = Inr (ClassObj (PyClass ''CFGTask'' [''Task'', ''object'']), [])"
proof -
  have c: "config plain_args = None" "controller plain_args = None"
    by (simp_all add: plain_args_def)
  note n = get_object_from_arg_None
  from n [of run_globals "''dict''" "DictVal []"]
  have a1: "get_object_from_arg run_globals None ''dict'' (DictVal []) = Inr (DictVal [])"
    by blast
  from n [of Map.empty "''AbstractController''" NoneVal]
  have a2: "get_object_from_arg Map.empty None ''AbstractController'' NoneVal = Inr NoneVal"
    by blast
  from n [of run_globals _ _ plain_args] c
  have "main run_globals plain_args =
        and_then (get_object_from_arg run_globals (Some (task plain_args)) ''Task'' NoneVal)
          (\<lambda>t. and_then (override_config (DictVal []) NoneVal (loadpath plain_args) (savepath plain_args))
                 (run_task t))"
    by blast
  then have a3: "main run_globals plain_args =
      Inr (ClassObj (PyClass ''CFGTask'' [''Task'', ''object'']), [])"
    by (simp add: plain_args_def run_globals_def and_then_def issubclass_def override_config_def)
  from a1 a2 a3 show ?thesis by blast
qed

end
